theory Spec2Isabelle
  imports Main
begin

section \<open>The Google Compute Engine driver (drivers/google/google.go)\<close>

text \<open>
  The driver is one Go file. Everything it calls on the compute client
  (\<^verbatim>\<open>compute_util.go\<close>), on the embedded base driver, on the flag loader and on
  the SSH and file helpers lives outside that file. Those collaborators are taken as
  parameters: a record of operations over an abstract provider world \<open>'w\<close>. The driver's
  own control flow (which call is issued when, what is returned, which field is written)
  is translated branch by branch. Log statements have no effect on any result and are
  left out.
\<close>

subsection \<open>Errors\<close>

text \<open>
  An error handed back by a collaborator, with the text of its \<^verbatim>\<open>Error()\<close>
  method.
\<close>

datatype ext_error = ExtError (errText: string)

text \<open>
  The errors the driver itself builds, one constructor per \<^verbatim>\<open>errors.New\<close> or
  \<^verbatim>\<open>fmt.Errorf\<close> site, holding the arguments of the format string;
  \<open>External\<close> is a collaborator's error passed on unchanged, \<open>Joined\<close> the value of
  \<^verbatim>\<open>errors.Join\<close>.
\<close>

datatype error =
    External ext_error
  | NoProjectSpecified
  | ProjectNotFound string ext_error
  | UnableToFindInstance string string
  | InstanceAlreadyExists string string
  | CannotReadUserdata string ext_error
  | FirewallPrefixRequired
  | ErrHostIsNotRunning
  | Joined "ext_error list"

text \<open>
  \<^verbatim>\<open>errors.Join\<close> of the Go standard library: nil when there is no error to
  join, one wrapping error otherwise. The driver only ever appends non-nil errors.
\<close>

definition errors_Join :: "ext_error list \<Rightarrow> error option" where
  "errors_Join errs = (if errs = [] then None else Some (Joined errs))"

subsection \<open>Strings\<close>

text \<open>
  \<^verbatim>\<open>strings.HasPrefix\<close>, \<^verbatim>\<open>strings.TrimPrefix\<close> and
  \<^verbatim>\<open>strings.Contains\<close> of the Go standard library, on strings as byte sequences.
\<close>

fun HasPrefix :: "string \<Rightarrow> string \<Rightarrow> bool" where
  "HasPrefix s [] = True"
| "HasPrefix [] (p # ps) = False"
| "HasPrefix (c # cs) (p # ps) = (c = p \<and> HasPrefix cs ps)"

definition TrimPrefix :: "string \<Rightarrow> string \<Rightarrow> string" where
  "TrimPrefix s p = (if HasPrefix s p then drop (length p) s else s)"

fun Contains :: "string \<Rightarrow> string \<Rightarrow> bool" where
  "Contains [] sub = (sub = [])"
| "Contains (c # cs) sub = (HasPrefix (c # cs) sub \<or> Contains cs sub)"

subsection \<open>The driver and its configuration\<close>

text \<open>The fields of the embedded \<^verbatim>\<open>drivers.BaseDriver\<close> that the driver file touches.\<close>

record baseDriver =
  IPAddress :: string
  MachineName :: string
  SSHUser :: string
  SSHPort :: int
  StorePath :: string

record driver =
  BaseDriver :: baseDriver
  Auth :: string
  Zone :: string
  MachineType :: string
  MachineImage :: string
  DiskType :: string
  Address :: string
  Network :: string
  Subnetwork :: string
  Preemptible :: bool
  UseInternalIP :: bool
  UseInternalIPOnly :: bool
  Scopes :: string
  DiskSize :: int
  Project :: string
  Tags :: string
  Labels :: string
  UseExisting :: bool
  OpenPorts :: "string list"
  ExternalFirewallRulePrefix :: string
  InternalFirewallRulePrefix :: string
  Userdata :: string

definition defaultZone :: string where "defaultZone = ''us-central1-a''"
definition defaultUser :: string where "defaultUser = ''docker-user''"
definition defaultMachineType :: string where "defaultMachineType = ''n1-standard-1''"
definition defaultImageName :: string where
  "defaultImageName = ''ubuntu-os-cloud/global/images/ubuntu-2204-jammy-v20220420''"
definition defaultScopes :: string where
  "defaultScopes = ''https://www.googleapis.com/auth/devstorage.read_only,https://www.googleapis.com/auth/logging.write,https://www.googleapis.com/auth/monitoring.write''"
definition defaultDiskType :: string where "defaultDiskType = ''pd-standard''"
definition defaultDiskSize :: int where "defaultDiskSize = 10"
definition defaultNetwork :: string where "defaultNetwork = ''default''"
definition defaultSubnetwork :: string where "defaultSubnetwork = ''''"

text \<open>\<^verbatim>\<open>NewDriver\<close>: every field it does not name has Go's zero value.\<close>

definition NewDriver :: "string \<Rightarrow> string \<Rightarrow> driver" where
  "NewDriver machineName storePath =
     \<lparr> BaseDriver = \<lparr> IPAddress = '''', MachineName = machineName, SSHUser = defaultUser,
                      SSHPort = 0, StorePath = storePath \<rparr>,
       Auth = '''', Zone = defaultZone, MachineType = defaultMachineType,
       MachineImage = defaultImageName, DiskType = defaultDiskType, Address = '''',
       Network = defaultNetwork, Subnetwork = defaultSubnetwork, Preemptible = False,
       UseInternalIP = False, UseInternalIPOnly = False, Scopes = defaultScopes,
       DiskSize = defaultDiskSize, Project = '''', Tags = '''', Labels = '''',
       UseExisting = False, OpenPorts = [], ExternalFirewallRulePrefix = '''',
       InternalFirewallRulePrefix = '''', Userdata = '''' \<rparr>"

text \<open>
  \<^verbatim>\<open>drivers.DriverOptions\<close>, the interface of the flag loader: four typed
  lookups by flag name.
\<close>

record driverOptions =
  opt_String :: "string \<Rightarrow> string"
  opt_StringSlice :: "string \<Rightarrow> string list"
  opt_Int :: "string \<Rightarrow> int"
  opt_Bool :: "string \<Rightarrow> bool"

text \<open>
  \<^verbatim>\<open>SetConfigFromFlags\<close>. The last call, \<^verbatim>\<open>d.SetSwarmConfigFromFlags(flags)\<close>,
  is a method of the embedded base driver defined elsewhere; it is the parameter
  \<open>setSwarm\<close> and, being a method of the base driver, it can only reach that part.
\<close>

definition SetConfigFromFlags ::
  "(driverOptions \<Rightarrow> baseDriver \<Rightarrow> baseDriver) \<Rightarrow> driverOptions \<Rightarrow> driver \<Rightarrow> error option \<times> driver"
where
  "SetConfigFromFlags setSwarm flags d0 =
    (let d = d0\<lparr>Project := opt_String flags ''google-project''\<rparr> in
     if Project d = '''' then (Some NoProjectSpecified, d)
     else
      let d = d\<lparr>Auth := opt_String flags ''google-auth-encoded-json''\<rparr>;
          d = d\<lparr>Zone := opt_String flags ''google-zone''\<rparr>;
          d = d\<lparr>UseExisting := opt_Bool flags ''google-use-existing''\<rparr>;
          d = (if \<not> UseExisting d then
                let d = d\<lparr>MachineType := opt_String flags ''google-machine-type''\<rparr>;
                    d = d\<lparr>MachineImage := opt_String flags ''google-machine-image''\<rparr>;
                    d = d\<lparr>MachineImage := TrimPrefix (MachineImage d)
                            ''https://www.googleapis.com/compute/v1/projects/''\<rparr>;
                    d = d\<lparr>DiskSize := opt_Int flags ''google-disk-size''\<rparr>;
                    d = d\<lparr>DiskType := opt_String flags ''google-disk-type''\<rparr>;
                    d = d\<lparr>Address := opt_String flags ''google-address''\<rparr>;
                    d = d\<lparr>Network := opt_String flags ''google-network''\<rparr>;
                    d = d\<lparr>Subnetwork := opt_String flags ''google-subnetwork''\<rparr>;
                    d = d\<lparr>Preemptible := opt_Bool flags ''google-preemptible''\<rparr>;
                    d = d\<lparr>UseInternalIP := (opt_Bool flags ''google-use-internal-ip''
                                             \<or> opt_Bool flags ''google-use-internal-ip-only'')\<rparr>;
                    d = d\<lparr>UseInternalIPOnly := opt_Bool flags ''google-use-internal-ip-only''\<rparr>;
                    d = d\<lparr>Scopes := opt_String flags ''google-scopes''\<rparr>;
                    d = d\<lparr>Tags := opt_String flags ''google-tags''\<rparr>;
                    d = d\<lparr>OpenPorts := opt_StringSlice flags ''google-open-port''\<rparr>;
                    d = d\<lparr>ExternalFirewallRulePrefix :=
                            opt_String flags ''google-external-firewall-rule-prefix''\<rparr>;
                    d = d\<lparr>InternalFirewallRulePrefix :=
                            opt_String flags ''google-internal-firewall-rule-prefix''\<rparr>;
                    d = d\<lparr>Labels := opt_String flags ''google-vm-labels''\<rparr>
                in d
               else d);
          d = d\<lparr>BaseDriver := (BaseDriver d)\<lparr>SSHUser := opt_String flags ''google-username''\<rparr>\<rparr>;
          d = d\<lparr>BaseDriver := (BaseDriver d)\<lparr>SSHPort := 22\<rparr>\<rparr>;
          d = d\<lparr>Userdata := opt_String flags ''google-userdata''\<rparr>;
          d = d\<lparr>BaseDriver := setSwarm flags (BaseDriver d)\<rparr>
      in (None, d))"

subsection \<open>Collaborators, provider world and call history\<close>

text \<open>
  \<^verbatim>\<open>state.State\<close> of libmachine, restricted to the values the driver returns.
\<close>

datatype State = state_None | state_NotFound | state_Stopped | state_Starting | state_Running

text \<open>The one field of the provider's instance object that the driver reads.\<close>

record gce_instance =
  Status :: string

text \<open>
  Every call the driver makes to a collaborator. The history of a run lists the calls in
  the order they were issued, each with the error it returned (\<open>None\<close> for nil).
\<close>

datatype call =
    CallGenerateSSHKey
  | CallNewComputeUtil
  | CallProjectsGet
  | CallReadFile
  | CallInstance
  | CallDisk
  | CallIP
  | CallCreateInstance
  | CallConfigureInstance
  | CallStartInstance
  | CallStopInstance
  | CallDeleteInstance
  | CallDeleteDisk
  | CallOpenPublicFirewallPorts
  | CallOpenInternalFirewallPorts
  | CallExternalFirewallRule
  | CallInternalFirewallRule
  | CallCleanUpFirewallRule string

type_synonym event = "call \<times> ext_error option"

record 'w sys =
  world :: 'w
  history :: "event list"

text \<open>
  The collaborators: the SSH and file helpers, the constructor and the methods of the
  compute client \<open>'c\<close>, over the provider world \<open>'w\<close>. \<open>'k\<close> and \<open>'f\<close> are the
  provider's disk and firewall-rule objects, which the driver only tests for nil or hands
  back. Methods that receive the driver read it. A Go result pair (value, error) stays a
  pair wherever the driver inspects both halves on their own. \<open>isNotFound\<close> is the
  compute client's classifier of errors; the driver also applies it to a nil error.
\<close>

record ('c, 'k, 'f, 'w) collab =
  GenerateSSHKey :: "string \<Rightarrow> 'w \<Rightarrow> ext_error option \<times> 'w"
  GetSSHKeyPath :: "baseDriver \<Rightarrow> string"
  ReadFile :: "string \<Rightarrow> 'w \<Rightarrow> (ext_error + string) \<times> 'w"
  newComputeUtil :: "driver \<Rightarrow> 'w \<Rightarrow> (ext_error + 'c) \<times> 'w"
  projectsGet :: "'c \<Rightarrow> string \<Rightarrow> 'w \<Rightarrow> ext_error option \<times> 'w"
  c_instance :: "'c \<Rightarrow> 'w \<Rightarrow> (gce_instance option \<times> ext_error option) \<times> 'w"
  c_disk :: "'c \<Rightarrow> 'w \<Rightarrow> ('k option \<times> ext_error option) \<times> 'w"
  c_ip :: "'c \<Rightarrow> 'w \<Rightarrow> (string \<times> ext_error option) \<times> 'w"
  createInstance :: "'c \<Rightarrow> driver \<Rightarrow> 'w \<Rightarrow> ext_error option \<times> 'w"
  configureInstance :: "'c \<Rightarrow> driver \<Rightarrow> 'w \<Rightarrow> ext_error option \<times> 'w"
  startInstance :: "'c \<Rightarrow> 'w \<Rightarrow> ext_error option \<times> 'w"
  stopInstance :: "'c \<Rightarrow> 'w \<Rightarrow> ext_error option \<times> 'w"
  deleteInstance :: "'c \<Rightarrow> 'w \<Rightarrow> ext_error option \<times> 'w"
  deleteDisk :: "'c \<Rightarrow> 'w \<Rightarrow> ext_error option \<times> 'w"
  openPublicFirewallPorts :: "'c \<Rightarrow> driver \<Rightarrow> 'w \<Rightarrow> ext_error option \<times> 'w"
  openInternalFirewallPorts :: "'c \<Rightarrow> driver \<Rightarrow> 'w \<Rightarrow> ext_error option \<times> 'w"
  externalFirewallRule :: "'c \<Rightarrow> 'w \<Rightarrow> ('f option \<times> ext_error option) \<times> 'w"
  internalFirewallRule :: "'c \<Rightarrow> 'w \<Rightarrow> ('f option \<times> ext_error option) \<times> 'w"
  CleanUpFirewallRule :: "'c \<Rightarrow> 'f option \<Rightarrow> string \<Rightarrow> 'w \<Rightarrow> ext_error option \<times> 'w"
  internalFirewallRulePrefix :: "'c \<Rightarrow> string"
  isNotFound :: "ext_error option \<Rightarrow> bool"
  externalFirewallRuleLabelKey :: string
  internalFirewallRuleLabelKey :: string

text \<open>The error half of a result that is either an error or a value.\<close>

definition errOf :: "ext_error + 'a \<Rightarrow> ext_error option" where
  "errOf r = (case r of Inl e \<Rightarrow> Some e | Inr v \<Rightarrow> None)"

text \<open>
  Issue one call: run the collaborator on the world and append the call, with the error it
  returned, to the history.
\<close>

definition invoke ::
  "call \<Rightarrow> ('a \<Rightarrow> ext_error option) \<Rightarrow> ('w \<Rightarrow> 'a \<times> 'w) \<Rightarrow> 'w sys \<Rightarrow> 'a \<times> 'w sys"
where
  "invoke c err f s =
     (case f (world s) of
        (r, w) \<Rightarrow> (r, \<lparr> world = w, history = history s @ [(c, err r)] \<rparr>))"

text \<open>The calls a run has added to the history of the state it started from.\<close>

definition issued :: "'w sys \<Rightarrow> 'w sys \<Rightarrow> event list" where
  "issued s s' = drop (length (history s)) (history s')"

text \<open>
  The calls that ask the provider to change something: ensuring or cleaning a firewall
  rule, and creating, reconfiguring, starting, stopping or deleting the instance or its
  disk. The probes (instance, disk, address, firewall rule, project), the client
  constructor and the local SSH key and file helpers are not among them.
\<close>

fun isMutation :: "call \<Rightarrow> bool" where
  "isMutation CallCreateInstance = True"
| "isMutation CallConfigureInstance = True"
| "isMutation CallStartInstance = True"
| "isMutation CallStopInstance = True"
| "isMutation CallDeleteInstance = True"
| "isMutation CallDeleteDisk = True"
| "isMutation CallOpenPublicFirewallPorts = True"
| "isMutation CallOpenInternalFirewallPorts = True"
| "isMutation (CallCleanUpFirewallRule k) = True"
| "isMutation c = False"

subsection \<open>Lifecycle operations\<close>

definition GetIP ::
  "('c, 'k, 'f, 'w) collab \<Rightarrow> driver \<Rightarrow> 'w sys \<Rightarrow> (string \<times> error option) \<times> 'w sys"
where
  "GetIP P d s =
     (case invoke CallNewComputeUtil errOf (newComputeUtil P d) s of
        (Inl err, s) \<Rightarrow> (('''', Some (External err)), s)
      | (Inr c, s) \<Rightarrow>
          (case invoke CallIP snd (c_ip P c) s of
             ((ip, Some err), s) \<Rightarrow> (('''', Some (External err)), s)
           | ((ip, None), s) \<Rightarrow>
               if ip = '''' then (('''', Some ErrHostIsNotRunning), s)
               else ((ip, None), s)))"

definition GetState ::
  "('c, 'k, 'f, 'w) collab \<Rightarrow> driver \<Rightarrow> 'w sys \<Rightarrow> (State \<times> error option) \<times> 'w sys"
where
  "GetState P d s =
     (case invoke CallNewComputeUtil errOf (newComputeUtil P d) s of
        (Inl err, s) \<Rightarrow> ((state_None, Some (External err)), s)
      | (Inr c, s) \<Rightarrow>
          (case invoke CallInstance snd (c_instance P c) s of
             ((None, err), s) \<Rightarrow>
               if (case err of None \<Rightarrow> False
                   | Some e \<Rightarrow> Contains (errText e) ''not found'')
               then ((state_NotFound, None), s)
               else
                 (case invoke CallDisk snd (c_disk P c) s of
                    ((None, _), s) \<Rightarrow> ((state_None, None), s)
                  | ((Some disk, _), s) \<Rightarrow> ((state_Stopped, None), s))
           | ((Some inst, err), s) \<Rightarrow>
               if Status inst = ''PROVISIONING'' \<or> Status inst = ''STAGING''
               then ((state_Starting, None), s)
               else if Status inst = ''RUNNING''
               then ((state_Running, None), s)
               else if Status inst = ''STOPPING'' \<or> Status inst = ''STOPPED''
                       \<or> Status inst = ''TERMINATED''
               then ((state_Stopped, None), s)
               else ((state_None, None), s)))"

definition Stop ::
  "('c, 'k, 'f, 'w) collab \<Rightarrow> driver \<Rightarrow> 'w sys \<Rightarrow> error option \<times> driver \<times> 'w sys"
where
  "Stop P d s =
     (case invoke CallNewComputeUtil errOf (newComputeUtil P d) s of
        (Inl err, s) \<Rightarrow> (Some (External err), d, s)
      | (Inr c, s) \<Rightarrow>
          (case invoke CallStopInstance id (stopInstance P c) s of
             (Some err, s) \<Rightarrow> (Some (External err), d, s)
           | (None, s) \<Rightarrow>
               (None, d\<lparr>BaseDriver := (BaseDriver d)\<lparr>IPAddress := ''''\<rparr>\<rparr>, s)))"

definition Start ::
  "('c, 'k, 'f, 'w) collab \<Rightarrow> driver \<Rightarrow> 'w sys \<Rightarrow> error option \<times> driver \<times> 'w sys"
where
  "Start P d s =
     (case invoke CallNewComputeUtil errOf (newComputeUtil P d) s of
        (Inl err, s) \<Rightarrow> (Some (External err), d, s)
      | (Inr c, s) \<Rightarrow>
          (case invoke CallInstance snd (c_instance P c) s of
             ((inst, err), s) \<Rightarrow>
               if err \<noteq> None \<and> \<not> isNotFound P err then (map_option External err, d, s)
               else
                 (case (if inst = None
                        then invoke CallCreateInstance id (createInstance P c d) s
                        else invoke CallStartInstance id (startInstance P c) s) of
                    (Some err, s) \<Rightarrow> (Some (External err), d, s)
                  | (None, s) \<Rightarrow>
                      (case GetIP P d s of
                         ((ip, err), s) \<Rightarrow>
                           (err, d\<lparr>BaseDriver := (BaseDriver d)\<lparr>IPAddress := ip\<rparr>\<rparr>, s)))))"

definition Restart ::
  "('c, 'k, 'f, 'w) collab \<Rightarrow> driver \<Rightarrow> 'w sys \<Rightarrow> error option \<times> driver \<times> 'w sys"
where
  "Restart P d s =
     (case Stop P d s of
        (Some err, d, s) \<Rightarrow> (Some err, d, s)
      | (None, d, s) \<Rightarrow> Start P d s)"

definition Kill ::
  "('c, 'k, 'f, 'w) collab \<Rightarrow> driver \<Rightarrow> 'w sys \<Rightarrow> error option \<times> driver \<times> 'w sys"
where
  "Kill P d s = Stop P d s"

definition PreCreateCheck ::
  "('c, 'k, 'f, 'w) collab \<Rightarrow> driver \<Rightarrow> 'w sys \<Rightarrow> error option \<times> driver \<times> 'w sys"
where
  "PreCreateCheck P d s =
     (case invoke CallNewComputeUtil errOf (newComputeUtil P d) s of
        (Inl err, s) \<Rightarrow> (Some (External err), d, s)
      | (Inr c, s) \<Rightarrow>
          (case invoke CallProjectsGet id (projectsGet P c (Project d)) s of
             (Some err, s) \<Rightarrow> (Some (ProjectNotFound (Project d) err), d, s)
           | (None, s) \<Rightarrow>
               (case invoke CallInstance snd (c_instance P c) s of
                  ((inst, _), s) \<Rightarrow>
                    if UseExisting d \<and> inst = None
                    then (Some (UnableToFindInstance (MachineName (BaseDriver d)) (Zone d)), d, s)
                    else if \<not> UseExisting d \<and> inst \<noteq> None
                    then (Some (InstanceAlreadyExists (MachineName (BaseDriver d)) (Zone d)), d, s)
                    else if Userdata d \<noteq> ''''
                    then
                      (case invoke CallReadFile errOf (ReadFile P (Userdata d)) s of
                         (Inl err, s) \<Rightarrow> (Some (CannotReadUserdata (Userdata d) err), d, s)
                       | (Inr file, s) \<Rightarrow> (None, d\<lparr>Userdata := file\<rparr>, s))
                    else (None, d, s))))"

definition Create ::
  "('c, 'k, 'f, 'w) collab \<Rightarrow> driver \<Rightarrow> 'w sys \<Rightarrow> error option \<times> 'w sys"
where
  "Create P d s =
     (case invoke CallGenerateSSHKey id (GenerateSSHKey P (GetSSHKeyPath P (BaseDriver d))) s of
        (Some err, s) \<Rightarrow> (Some (External err), s)
      | (None, s) \<Rightarrow>
          (case invoke CallNewComputeUtil errOf (newComputeUtil P d) s of
             (Inl err, s) \<Rightarrow> (Some (External err), s)
           | (Inr c, s) \<Rightarrow>
               (case (if length (OpenPorts d) > 0
                      then
                        if ExternalFirewallRulePrefix d = ''''
                        then (Some FirewallPrefixRequired, s)
                        else
                          (case invoke CallOpenPublicFirewallPorts id
                                  (openPublicFirewallPorts P c d) s of
                             (err, s) \<Rightarrow> (map_option External err, s))
                      else (None, s)) of
                  (Some err, s) \<Rightarrow> (Some err, s)
                | (None, s) \<Rightarrow>
                    (case (if InternalFirewallRulePrefix d \<noteq> ''''
                           then invoke CallOpenInternalFirewallPorts id
                                  (openInternalFirewallPorts P c d) s
                           else (None, s)) of
                       (Some err, s) \<Rightarrow> (Some (External err), s)
                     | (None, s) \<Rightarrow>
                         if UseExisting d
                         then
                           (case invoke CallConfigureInstance id (configureInstance P c d) s of
                              (err, s) \<Rightarrow> (map_option External err, s))
                         else
                           (case invoke CallCreateInstance id (createInstance P c d) s of
                              (err, s) \<Rightarrow> (map_option External err, s))))))"

definition Remove ::
  "('c, 'k, 'f, 'w) collab \<Rightarrow> driver \<Rightarrow> 'w sys \<Rightarrow> error option \<times> 'w sys"
where
  "Remove P d s =
     (case invoke CallNewComputeUtil errOf (newComputeUtil P d) s of
        (Inl err, s) \<Rightarrow> (Some (External err), s)
      | (Inr c, s) \<Rightarrow>
          (case invoke CallDeleteInstance id (deleteInstance P c) s of
             (err, s) \<Rightarrow>
               if err \<noteq> None \<and> \<not> isNotFound P err then (map_option External err, s)
               else
                 (case invoke CallDeleteDisk id (deleteDisk P c) s of
                    (err, s) \<Rightarrow>
                      if err \<noteq> None \<and> \<not> isNotFound P err then (map_option External err, s)
                      else
                        (case (if length (OpenPorts d) > 0
                               then
                                 (case invoke CallExternalFirewallRule snd
                                         (externalFirewallRule P c) s of
                                    ((externalFwRule, err), s) \<Rightarrow>
                                      if isNotFound P err then ([], s)
                                      else
                                        (case err of
                                           Some e \<Rightarrow> ([] @ [e], s)
                                         | None \<Rightarrow>
                                             (case invoke
                                                     (CallCleanUpFirewallRule
                                                        (externalFirewallRuleLabelKey P)) id
                                                     (CleanUpFirewallRule P c externalFwRule
                                                        (externalFirewallRuleLabelKey P)) s of
                                                (Some e, s) \<Rightarrow> ([] @ [e], s)
                                              | (None, s) \<Rightarrow> ([], s))))
                               else ([], s)) of
                           (errs, s) \<Rightarrow>
                             (case (if internalFirewallRulePrefix P c \<noteq> ''''
                                    then
                                      (case invoke CallInternalFirewallRule snd
                                              (internalFirewallRule P c) s of
                                         ((internalFwRule, err), s) \<Rightarrow>
                                           if isNotFound P err then (errs, s)
                                           else
                                             (case err of
                                                Some e \<Rightarrow> (errs @ [e], s)
                                              | None \<Rightarrow>
                                                  (case invoke
                                                          (CallCleanUpFirewallRule
                                                             (internalFirewallRuleLabelKey P)) id
                                                          (CleanUpFirewallRule P c internalFwRule
                                                             (internalFirewallRuleLabelKey P)) s of
                                                     (Some e, s) \<Rightarrow> (errs @ [e], s)
                                                   | (None, s) \<Rightarrow> (errs, s))))
                                    else (errs, s)) of
                                (errs, s) \<Rightarrow> (errors_Join errs, s))))))"

subsection \<open>The state inference table of the specification\<close>

text \<open>
  The condition under which \<^verbatim>\<open>GetState\<close> takes the instance probe's error for an
  explicit not-found: the error is not nil and its text contains \<^verbatim>\<open>not found\<close>.
\<close>

definition explicitNotFound :: "ext_error option \<Rightarrow> bool" where
  "explicitNotFound err =
     (case err of None \<Rightarrow> False | Some e \<Rightarrow> Contains (errText e) ''not found'')"

text \<open>
  The decision table of section 4.3 of the specification, written from its words: seven
  rows, the first that matches wins.
\<close>

definition StateInference :: "gce_instance option \<Rightarrow> bool \<Rightarrow> bool \<Rightarrow> State" where
  "StateInference inst notFoundError diskPresent =
     (if notFoundError \<and> inst = None then state_NotFound
      else if inst = None \<and> \<not> diskPresent then state_None
      else if inst = None \<and> diskPresent then state_Stopped
      else
        (case inst of
           None \<Rightarrow> state_None
         | Some i \<Rightarrow>
             if Status i \<in> {''PROVISIONING'', ''STAGING''} then state_Starting
             else if Status i = ''RUNNING'' then state_Running
             else if Status i \<in> {''STOPPING'', ''STOPPED'', ''TERMINATED''} then state_Stopped
             else state_None))"

subsection \<open>Ordering of firewall and instance calls\<close>

definition isInstanceMutation :: "call \<Rightarrow> bool" where
  "isInstanceMutation c = (c = CallCreateInstance \<or> c = CallConfigureInstance)"

definition isFirewallCall :: "call \<Rightarrow> bool" where
  "isFirewallCall c = (c = CallOpenPublicFirewallPorts \<or> c = CallOpenInternalFirewallPorts)"

text \<open>
  A monitor over a call history. \<open>needExternal\<close> and \<open>needInternal\<close> say which
  firewall reconciliations are still owed; one is paid off by the matching call returning
  nil. The history passes when, at every call that creates or reconfigures the instance,
  nothing is owed, and no firewall call comes after it.
\<close>

fun firewallFirst :: "bool \<Rightarrow> bool \<Rightarrow> event list \<Rightarrow> bool" where
  "firewallFirst needExternal needInternal [] = True"
| "firewallFirst needExternal needInternal ((c, err) # evs) =
     (if isInstanceMutation c
      then \<not> needExternal \<and> \<not> needInternal
           \<and> list_all (\<lambda>ev. \<not> isFirewallCall (fst ev)) evs
           \<and> firewallFirst needExternal needInternal evs
      else if c = CallOpenPublicFirewallPorts
      then firewallFirst (needExternal \<and> err \<noteq> None) needInternal evs
      else if c = CallOpenInternalFirewallPorts
      then firewallFirst needExternal (needInternal \<and> err \<noteq> None) evs
      else firewallFirst needExternal needInternal evs)"

subsection \<open>A simulated provider\<close>

text \<open>
  A small provider to run the operations on: an instance that is absent or has a status,
  a disk, and the two firewall rules. A probe of something absent answers with a
  not-found error, the one error the classifier takes for not-found. The compute client is
  the driver configuration it was built from.
\<close>

record simWorld =
  instanceStatus :: "string option"
  diskPresent :: bool
  externalRule :: bool
  internalRule :: bool

definition gone :: ext_error where
  "gone = ExtError ''googleapi: Error 404: The resource was not found, notFound''"

definition backendError :: ext_error where
  "backendError = ExtError ''googleapi: Error 503: Backend Error, backendError''"

definition sim :: "(driver, unit, unit, simWorld) collab" where
  "sim =
     \<lparr> GenerateSSHKey = (\<lambda>path w. (None, w)),
       GetSSHKeyPath = (\<lambda>b. StorePath b @ ''/id_rsa''),
       ReadFile = (\<lambda>path w. (Inr ''#cloud-config'', w)),
       newComputeUtil = (\<lambda>d w. (Inr d, w)),
       projectsGet = (\<lambda>c p w. (None, w)),
       c_instance = (\<lambda>c w.
          (case instanceStatus w of
             None \<Rightarrow> (None, Some gone)
           | Some st \<Rightarrow> (Some \<lparr> Status = st \<rparr>, None), w)),
       c_disk = (\<lambda>c w. (if diskPresent w then (Some (), None) else (None, Some gone), w)),
       c_ip = (\<lambda>c w.
          (case instanceStatus w of
             None \<Rightarrow> ('''', Some gone)
           | Some st \<Rightarrow> (if st = ''RUNNING'' then ''203.0.113.7'' else '''', None), w)),
       createInstance = (\<lambda>c d w.
          (None, w\<lparr>instanceStatus := Some ''RUNNING'', diskPresent := True\<rparr>)),
       configureInstance = (\<lambda>c d w. (None, w)),
       startInstance = (\<lambda>c w.
          (case instanceStatus w of
             None \<Rightarrow> (Some gone, w)
           | Some st \<Rightarrow> (None, w\<lparr>instanceStatus := Some ''RUNNING''\<rparr>))),
       stopInstance = (\<lambda>c w.
          (case instanceStatus w of
             None \<Rightarrow> (Some gone, w)
           | Some st \<Rightarrow> (None, w\<lparr>instanceStatus := Some ''TERMINATED''\<rparr>))),
       deleteInstance = (\<lambda>c w.
          (case instanceStatus w of
             None \<Rightarrow> (Some gone, w)
           | Some st \<Rightarrow> (None, w\<lparr>instanceStatus := None\<rparr>))),
       deleteDisk = (\<lambda>c w.
          if diskPresent w then (None, w\<lparr>diskPresent := False\<rparr>) else (Some gone, w)),
       openPublicFirewallPorts = (\<lambda>c d w. (None, w\<lparr>externalRule := True\<rparr>)),
       openInternalFirewallPorts = (\<lambda>c d w. (None, w\<lparr>internalRule := True\<rparr>)),
       externalFirewallRule = (\<lambda>c w.
          (if externalRule w then (Some (), None) else (None, Some gone), w)),
       internalFirewallRule = (\<lambda>c w.
          (if internalRule w then (Some (), None) else (None, Some gone), w)),
       CleanUpFirewallRule = (\<lambda>c rule key w.
          (None, if key = ''external'' then w\<lparr>externalRule := False\<rparr>
                 else w\<lparr>internalRule := False\<rparr>)),
       internalFirewallRulePrefix = InternalFirewallRulePrefix,
       isNotFound = (\<lambda>err. err = Some gone),
       externalFirewallRuleLabelKey = ''external'',
       internalFirewallRuleLabelKey = ''internal'' \<rparr>"

text \<open>Two provider states: everything provisioned and running, and nothing there.\<close>

definition up :: "simWorld sys" where
  "up = \<lparr> world = \<lparr> instanceStatus = Some ''RUNNING'', diskPresent = True,
                     externalRule = True, internalRule = True \<rparr>,
          history = [] \<rparr>"

definition blank :: "simWorld sys" where
  "blank = \<lparr> world = \<lparr> instanceStatus = None, diskPresent = False,
                        externalRule = False, internalRule = False \<rparr>,
             history = [] \<rparr>"

text \<open>A driver for a machine with one public port and both firewall prefixes set.\<close>

definition web :: driver where
  "web = (NewDriver ''web'' ''/store'')
           \<lparr> Project := ''proj'', OpenPorts := [''80/tcp''],
             ExternalFirewallRulePrefix := ''pub'', InternalFirewallRulePrefix := ''priv'' \<rparr>"

text \<open>Flag sets: the registered defaults of a run that names a project.\<close>

definition flagsFor :: "bool \<Rightarrow> driverOptions" where
  "flagsFor useExisting =
     \<lparr> opt_String = (\<lambda>k.
          if k = ''google-project'' then ''proj''
          else if k = ''google-zone'' then defaultZone
          else if k = ''google-machine-type'' then ''e2-medium''
          else if k = ''google-machine-image'' then
            ''https://www.googleapis.com/compute/v1/projects/debian-cloud/global/images/debian-12''
          else if k = ''google-username'' then defaultUser
          else if k = ''google-scopes'' then defaultScopes
          else if k = ''google-disk-type'' then ''pd-ssd''
          else if k = ''google-network'' then ''prod''
          else if k = ''google-tags'' then ''web''
          else if k = ''google-external-firewall-rule-prefix'' then ''pub''
          else ''''),
       opt_StringSlice = (\<lambda>k. if k = ''google-open-port'' then [''80/tcp''] else []),
       opt_Int = (\<lambda>k. if k = ''google-disk-size'' then 50 else 0),
       opt_Bool = (\<lambda>k.
          if k = ''google-use-existing'' then useExisting
          else if k = ''google-use-internal-ip-only'' then True
          else False) \<rparr>"

text \<open>The same provider with an instance delete that fails on a backend error.\<close>

definition simDeleteFails :: "(driver, unit, unit, simWorld) collab" where
  "simDeleteFails = sim\<lparr> deleteInstance := (\<lambda>c w. (Some backendError, w)) \<rparr>"

text \<open>The same provider with an external firewall rule that cannot be fetched.\<close>

definition simFirewallFails :: "(driver, unit, unit, simWorld) collab" where
  "simFirewallFails =
     sim\<lparr> externalFirewallRule := (\<lambda>c w. ((None, Some backendError), w)) \<rparr>"

text \<open>A driver that still holds the address of the running machine.\<close>

definition webRunning :: driver where
  "webRunning = web\<lparr> BaseDriver := (BaseDriver web)\<lparr> IPAddress := ''203.0.113.7'' \<rparr> \<rparr>"

subsection \<open>What one firewall step of Remove contributes\<close>

text \<open>
  A firewall step of \<^verbatim>\<open>Remove\<close> fetches the rule and, when the fetch returned no
  error and is not classified not-found, cleans it up. \<open>stepCalls\<close> lists the calls of
  a step whose fetch returned \<open>fetched\<close>, classified \<open>nf\<close>, and whose clean-up
  returned \<open>cleaned\<close>; \<open>stepErrors\<close> lists the errors it appends to
  \<^verbatim>\<open>errs\<close>.
\<close>

definition stepErrors ::
  "bool \<Rightarrow> ext_error option \<Rightarrow> ext_error option \<Rightarrow> ext_error list"
where
  "stepErrors nf fetched cleaned =
     (if nf then []
      else
        (case fetched of
           Some e \<Rightarrow> [e]
         | None \<Rightarrow> (case cleaned of Some e \<Rightarrow> [e] | None \<Rightarrow> [])))"

definition stepCalls ::
  "call \<Rightarrow> string \<Rightarrow> bool \<Rightarrow> ext_error option \<Rightarrow> ext_error option \<Rightarrow> event list"
where
  "stepCalls probe key nf fetched cleaned =
     (probe, fetched)
     # (if \<not> nf \<and> fetched = None then [(CallCleanUpFirewallRule key, cleaned)] else [])"

section \<open>Properties\<close>

subsection \<open>Calls and histories\<close>

lemma invoke_eq:
  "invoke c e f s =
     (fst (f (world s)),
      \<lparr> world = snd (f (world s)), history = history s @ [(c, e (fst (f (world s))))] \<rparr>)"
  by (simp add: invoke_def split: prod.splits)

lemma issued_append: "issued s \<lparr> world = w, history = history s @ evs \<rparr> = evs"
  by (simp add: issued_def)

lemma GetIP_calls:
  "history (snd (GetIP P d s)) =
     history s @
       (CallNewComputeUtil, errOf (fst (newComputeUtil P d (world s))))
       # (case fst (newComputeUtil P d (world s)) of
            Inl e \<Rightarrow> []
          | Inr c \<Rightarrow> [(CallIP, snd (fst (c_ip P c (snd (newComputeUtil P d (world s))))))])"
  by (simp add: GetIP_def invoke_eq case_prod_beta split: option.splits sum.splits)

lemma Start_history: "\<exists>evs. history (snd (snd (Start P d s))) = history s @ evs"
  by (simp add: Start_def invoke_eq case_prod_beta GetIP_calls split: option.splits sum.splits)

text \<open>The definitions that evaluate a run on the simulated provider.\<close>

lemmas sim_eval = sim_def web_def up_def blank_def NewDriver_def gone_def backendError_def
  invoke_def errOf_def issued_def errors_Join_def defaultZone_def defaultUser_def
  defaultMachineType_def defaultImageName_def defaultScopes_def defaultDiskType_def
  defaultDiskSize_def defaultNetwork_def defaultSubnetwork_def

subsection \<open>Remove\<close>

text \<open>
  C1 (as amended). \<^verbatim>\<open>Remove\<close> returns at once when the instance delete fails with
  an error other than not-found, and again when the disk delete does: the later steps are
  then not attempted and the error is returned as it is. A not-found from either delete is
  tolerated. Once both deletes are past, the two firewall steps collect their errors: the
  external step runs when ports are open, the internal step when the client has an internal
  prefix, each whatever the other returned, and \<^verbatim>\<open>Remove\<close> returns the join of the
  collected errors (nil when there is none).
\<close>

theorem Remove_collects_firewall_errors:
  assumes "newComputeUtil P d (world s) = (Inr c, w1)"
      and "deleteInstance P c w1 = (e1, w2)"
      and "deleteDisk P c w2 = (e2, w3)"
      and "externalFirewallRule P c w3 = ((r1, g1), w4)"
      and "CleanUpFirewallRule P c r1 (externalFirewallRuleLabelKey P) w4 = (x1, w5)"
      and "wE = (if OpenPorts d = [] then w3
                 else if \<not> isNotFound P g1 \<and> g1 = None then w5 else w4)"
      and "internalFirewallRule P c wE = ((r2, g2), w6)"
      and "CleanUpFirewallRule P c r2 (internalFirewallRuleLabelKey P) w6 = (x2, w7)"
  shows
    "(e1 \<noteq> None \<and> \<not> isNotFound P e1 \<longrightarrow>
        Remove P d s =
          (map_option External e1,
           \<lparr> world = w2,
             history = history s @ [(CallNewComputeUtil, None), (CallDeleteInstance, e1)] \<rparr>))
     \<and> (\<not> (e1 \<noteq> None \<and> \<not> isNotFound P e1) \<and> e2 \<noteq> None \<and> \<not> isNotFound P e2 \<longrightarrow>
        Remove P d s =
          (map_option External e2,
           \<lparr> world = w3,
             history = history s @
               [(CallNewComputeUtil, None), (CallDeleteInstance, e1), (CallDeleteDisk, e2)] \<rparr>))
     \<and> (\<not> (e1 \<noteq> None \<and> \<not> isNotFound P e1) \<and> \<not> (e2 \<noteq> None \<and> \<not> isNotFound P e2) \<longrightarrow>
        fst (Remove P d s) =
          errors_Join
            ((if OpenPorts d = [] then [] else stepErrors (isNotFound P g1) g1 x1)
             @ (if internalFirewallRulePrefix P c = '''' then []
                else stepErrors (isNotFound P g2) g2 x2))
      \<and> issued s (snd (Remove P d s)) =
          [(CallNewComputeUtil, None), (CallDeleteInstance, e1), (CallDeleteDisk, e2)]
          @ (if OpenPorts d = [] then []
             else stepCalls CallExternalFirewallRule (externalFirewallRuleLabelKey P)
                    (isNotFound P g1) g1 x1)
          @ (if internalFirewallRulePrefix P c = '''' then []
             else stepCalls CallInternalFirewallRule (internalFirewallRuleLabelKey P)
                    (isNotFound P g2) g2 x2))"
proof (cases "e1 \<noteq> None \<and> \<not> isNotFound P e1")
  case True
  then show ?thesis
    using assms(1,2) by (simp add: Remove_def invoke_eq errOf_def)
next
  case n1: False
  show ?thesis
  proof (cases "e2 \<noteq> None \<and> \<not> isNotFound P e2")
    case True
    with n1 show ?thesis
      using assms(1,2,3) by (simp add: Remove_def invoke_eq errOf_def)
  next
    case n2: False
    show ?thesis
    proof (cases "OpenPorts d = []")
      case True
      with n1 n2 assms show ?thesis
        by (cases g2; cases x2)
           (auto simp add: Remove_def invoke_eq errOf_def issued_def stepErrors_def stepCalls_def)
    next
      case False
      with n1 n2 assms show ?thesis
        by (cases g1; cases x1; cases g2; cases x2)
           (auto simp add: Remove_def invoke_eq errOf_def issued_def stepErrors_def stepCalls_def)
    qed
  qed
qed

theorem Remove_collects_firewall_errors_witness:
  "newComputeUtil simFirewallFails web (world up) = (Inr web, world up)
   \<and> deleteInstance simFirewallFails web (world up)
       = (None, (world up)\<lparr>instanceStatus := None\<rparr>)
   \<and> deleteDisk simFirewallFails web ((world up)\<lparr>instanceStatus := None\<rparr>)
       = (None, (world up)\<lparr>instanceStatus := None, diskPresent := False\<rparr>)
   \<and> externalFirewallRule simFirewallFails web
         ((world up)\<lparr>instanceStatus := None, diskPresent := False\<rparr>)
       = ((None, Some backendError), (world up)\<lparr>instanceStatus := None, diskPresent := False\<rparr>)
   \<and> fst (Remove simFirewallFails web up) = Some (Joined [backendError])
   \<and> issued up (snd (Remove simFirewallFails web up))
       = [(CallNewComputeUtil, None), (CallDeleteInstance, None), (CallDeleteDisk, None),
          (CallExternalFirewallRule, Some backendError),
          (CallInternalFirewallRule, None), (CallCleanUpFirewallRule ''internal'', None)]"
  using Remove_collects_firewall_errors
    [where P = simFirewallFails and d = web and s = up and c = web and ?w1.0 = "world up"
       and ?e1.0 = None and ?w2.0 = "(world up)\<lparr>instanceStatus := None\<rparr>"
       and ?e2.0 = None
       and ?w3.0 = "(world up)\<lparr>instanceStatus := None, diskPresent := False\<rparr>"
       and ?r1.0 = None and ?g1.0 = "Some backendError"
       and ?w4.0 = "(world up)\<lparr>instanceStatus := None, diskPresent := False\<rparr>"
       and ?x1.0 = None
       and ?w5.0 = "(world up)\<lparr>instanceStatus := None, diskPresent := False,
                                  externalRule := False\<rparr>"
       and wE = "(world up)\<lparr>instanceStatus := None, diskPresent := False\<rparr>"
       and ?r2.0 = "Some ()" and ?g2.0 = None
       and ?w6.0 = "(world up)\<lparr>instanceStatus := None, diskPresent := False\<rparr>"
       and ?x2.0 = None
       and ?w7.0 = "(world up)\<lparr>instanceStatus := None, diskPresent := False,
                                  internalRule := False\<rparr>"]
  by (simp add: sim_eval simFirewallFails_def stepErrors_def stepCalls_def)

text \<open>
  C1 as written fails: on the simulated provider, with everything provisioned and an
  instance delete that fails on a backend error, \<^verbatim>\<open>Remove\<close> returns that error
  after two calls. The disk delete is not among them and the disk is still there.
\<close>

theorem Remove_instance_failure_skips_disk:
  "fst (Remove simDeleteFails web up) = Some (External backendError)
   \<and> issued up (snd (Remove simDeleteFails web up))
       = [(CallNewComputeUtil, None), (CallDeleteInstance, Some backendError)]
   \<and> CallDeleteDisk \<notin> fst ` set (issued up (snd (Remove simDeleteFails web up)))
   \<and> diskPresent (world (snd (Remove simDeleteFails web up)))"
  by (simp add: Remove_def sim_eval simDeleteFails_def)

subsection \<open>GetState\<close>

text \<open>
  C2. Once the compute client is built, \<^verbatim>\<open>GetState\<close> returns the value of the
  decision table of section 4.3 for the instance probe's result, the disk probe's result
  and the probe error, and it returns no error: a probe error whose text says not found,
  with no instance object, becomes the state NotFound.
\<close>

theorem GetState_table:
  assumes "newComputeUtil P d (world s) = (Inr c, w1)"
      and "c_instance P c w1 = ((inst, err), w2)"
      and "c_disk P c w2 = ((disk, derr), w3)"
  shows "fst (GetState P d s)
           = (StateInference inst (explicitNotFound err) (disk \<noteq> None), None)
       \<and> (inst = None \<and> explicitNotFound err \<longrightarrow>
            fst (GetState P d s) = (state_NotFound, None))"
  using assms
  by (auto simp add: GetState_def invoke_def StateInference_def explicitNotFound_def errOf_def
      split: option.splits)

theorem GetState_table_witness:
  "newComputeUtil sim web (world blank) = (Inr web, world blank)
   \<and> c_instance sim web (world blank) = ((None, Some gone), world blank)
   \<and> c_disk sim web (world blank) = ((None, Some gone), world blank)
   \<and> explicitNotFound (Some gone)
   \<and> fst (GetState sim web blank) = (state_NotFound, None)"
  using GetState_table
    [where P = sim and d = web and s = blank and c = web and ?w1.0 = "world blank"
       and inst = None and err = "Some gone" and ?w2.0 = "world blank"
       and disk = None and derr = "Some gone" and ?w3.0 = "world blank"]
  by (simp add: sim_eval explicitNotFound_def StateInference_def)

subsection \<open>Create\<close>

text \<open>
  C3. With a non-empty open-port list and an empty external firewall rule prefix,
  \<^verbatim>\<open>Create\<close> returns an error and none of the calls it has issued mutates the
  provider; when the SSH key and the client are made, the calls are those two and the error
  is the missing-prefix error.
\<close>

theorem Create_requires_external_prefix:
  assumes "OpenPorts d \<noteq> []" and "ExternalFirewallRulePrefix d = ''''"
  shows "fst (Create P d s) \<noteq> None
       \<and> (\<forall>ev \<in> set (issued s (snd (Create P d s))). \<not> isMutation (fst ev))
       \<and> (\<forall>w0 c w1. GenerateSSHKey P (GetSSHKeyPath P (BaseDriver d)) (world s) = (None, w0)
                     \<and> newComputeUtil P d w0 = (Inr c, w1)
            \<longrightarrow> Create P d s =
                  (Some FirewallPrefixRequired,
                   \<lparr> world = w1,
                     history = history s
                       @ [(CallGenerateSSHKey, None), (CallNewComputeUtil, None)] \<rparr>))"
  using assms
  by (auto simp add: Create_def invoke_def errOf_def issued_def
      split: prod.splits option.splits sum.splits)

theorem Create_requires_external_prefix_witness:
  "OpenPorts (web\<lparr>ExternalFirewallRulePrefix := ''''\<rparr>) \<noteq> []
   \<and> ExternalFirewallRulePrefix (web\<lparr>ExternalFirewallRulePrefix := ''''\<rparr>) = ''''
   \<and> Create sim (web\<lparr>ExternalFirewallRulePrefix := ''''\<rparr>) blank
       = (Some FirewallPrefixRequired,
          \<lparr> world = world blank,
            history = [(CallGenerateSSHKey, None), (CallNewComputeUtil, None)] \<rparr>)"
  using Create_requires_external_prefix
    [where P = sim and d = "web\<lparr>ExternalFirewallRulePrefix := ''''\<rparr>" and s = blank]
  by (simp add: sim_eval)

text \<open>
  C6. A successful \<^verbatim>\<open>Create\<close> has issued, in this order: the SSH key, the client,
  the external firewall reconciliation when ports are open, the internal one when its
  prefix is set, each returning nil, and last the one call that creates or reconfigures the
  instance. In every run, successful or not, the history passes the monitor
  \<open>firewallFirst\<close>: the instance call is never issued while an applicable firewall
  reconciliation has not returned nil. (The monitor does reject histories that create the
  instance too early; three are evaluated after the theorem.)
\<close>

theorem Create_firewall_before_instance:
  "(fst (Create P d s) = None \<longrightarrow>
      issued s (snd (Create P d s)) =
        [(CallGenerateSSHKey, None), (CallNewComputeUtil, None)]
        @ (if OpenPorts d \<noteq> [] then [(CallOpenPublicFirewallPorts, None)] else [])
        @ (if InternalFirewallRulePrefix d \<noteq> ''''
           then [(CallOpenInternalFirewallPorts, None)] else [])
        @ [(if UseExisting d then CallConfigureInstance else CallCreateInstance, None)])
   \<and> firewallFirst (OpenPorts d \<noteq> []) (InternalFirewallRulePrefix d \<noteq> '''')
         (issued s (snd (Create P d s)))"
  by (simp add: Create_def invoke_eq errOf_def issued_def isInstanceMutation_def
        isFirewallCall_def
      split: option.splits sum.splits)

theorem Create_firewall_before_instance_witness:
  "fst (Create sim web blank) = None
   \<and> issued blank (snd (Create sim web blank))
       = [(CallGenerateSSHKey, None), (CallNewComputeUtil, None),
          (CallOpenPublicFirewallPorts, None), (CallOpenInternalFirewallPorts, None),
          (CallCreateInstance, None)]
   \<and> firewallFirst True True (issued blank (snd (Create sim web blank)))
   \<and> \<not> firewallFirst True False [(CallNewComputeUtil, None), (CallCreateInstance, None)]
   \<and> \<not> firewallFirst True False
         [(CallOpenPublicFirewallPorts, Some backendError), (CallCreateInstance, None)]
   \<and> \<not> firewallFirst False True
         [(CallConfigureInstance, None), (CallOpenInternalFirewallPorts, None)]"
  using Create_firewall_before_instance [where P = sim and d = web and s = blank]
  by (simp add: Create_def sim_eval isInstanceMutation_def isFirewallCall_def)

subsection \<open>Start\<close>

text \<open>
  C4 (as amended). \<^verbatim>\<open>Start\<close> probes the instance. If the probe fails with an error
  other than not-found, \<^verbatim>\<open>Start\<close> fails with that error and issues nothing more. If
  the instance is absent it calls the client's \<^verbatim>\<open>createInstance\<close>, and only that: no
  SSH key is generated, no firewall rule is reconciled and no instance is reconfigured. If
  the instance is present it calls the provider's start action. When that call fails,
  \<^verbatim>\<open>Start\<close> fails with its error; when it succeeds, \<^verbatim>\<open>Start\<close> runs
  \<^verbatim>\<open>GetIP\<close>, writes the address it resolved to the driver's IP-address field and
  returns its error.
\<close>

theorem Start_behaviour:
  assumes "newComputeUtil P d (world s) = (Inr c, w1)"
      and "c_instance P c w1 = ((inst, err), w2)"
      and "(if inst = None then createInstance P c d w2 else startInstance P c w2) = (r, w3)"
      and "s3 = \<lparr> world = w3,
                  history = history s @
                    [(CallNewComputeUtil, None), (CallInstance, err),
                     (if inst = None then CallCreateInstance else CallStartInstance, r)] \<rparr>"
  shows
    "(err \<noteq> None \<and> \<not> isNotFound P err \<longrightarrow>
        Start P d s =
          (map_option External err, d,
           \<lparr> world = w2,
             history = history s @ [(CallNewComputeUtil, None), (CallInstance, err)] \<rparr>))
     \<and> (\<not> (err \<noteq> None \<and> \<not> isNotFound P err) \<longrightarrow>
          (\<forall>e. r = Some e \<longrightarrow> Start P d s = (Some (External e), d, s3))
        \<and> (r = None \<longrightarrow>
             Start P d s =
               (snd (fst (GetIP P d s3)),
                d\<lparr>BaseDriver := (BaseDriver d)\<lparr>IPAddress := fst (fst (GetIP P d s3))\<rparr>\<rparr>,
                snd (GetIP P d s3)))
        \<and> list_all (\<lambda>ev. fst ev \<noteq> CallGenerateSSHKey \<and> \<not> isFirewallCall (fst ev)
                          \<and> fst ev \<noteq> CallConfigureInstance)
            (issued s (snd (snd (Start P d s)))))"
proof (cases "err \<noteq> None \<and> \<not> isNotFound P err")
  case True
  then show ?thesis
    using assms(1,2) by (simp add: Start_def invoke_eq errOf_def)
next
  case False
  show ?thesis
  proof (cases inst)
    case None
    with False assms show ?thesis
      by (cases r)
         (auto simp add: Start_def invoke_eq errOf_def case_prod_beta issued_def
            isFirewallCall_def GetIP_calls split: sum.splits)
  next
    case (Some i)
    with False assms show ?thesis
      by (cases r)
         (auto simp add: Start_def invoke_eq errOf_def case_prod_beta issued_def
            isFirewallCall_def GetIP_calls split: sum.splits)
  qed
qed

theorem Start_behaviour_witness:
  "newComputeUtil sim web (world blank) = (Inr web, world blank)
   \<and> c_instance sim web (world blank) = ((None, Some gone), world blank)
   \<and> createInstance sim web web (world blank)
       = (None, (world blank)\<lparr>instanceStatus := Some ''RUNNING'', diskPresent := True\<rparr>)
   \<and> isNotFound sim (Some gone)
   \<and> fst (Start sim web blank) = None
   \<and> IPAddress (BaseDriver (fst (snd (Start sim web blank)))) = ''203.0.113.7''
   \<and> issued blank (snd (snd (Start sim web blank)))
       = [(CallNewComputeUtil, None), (CallInstance, Some gone), (CallCreateInstance, None),
          (CallNewComputeUtil, None), (CallIP, None)]"
  using Start_behaviour
    [where P = sim and d = web and s = blank and c = web and ?w1.0 = "world blank"
       and inst = None and err = "Some gone" and ?w2.0 = "world blank" and r = None
       and ?w3.0 = "(world blank)\<lparr>instanceStatus := Some ''RUNNING'', diskPresent := True\<rparr>"
       and ?s3.0 = "\<lparr> world = (world blank)\<lparr>instanceStatus := Some ''RUNNING'',
                                              diskPresent := True\<rparr>,
                      history = history blank @
                        [(CallNewComputeUtil, None), (CallInstance, Some gone),
                         (CallCreateInstance, None)] \<rparr>"]
  by (simp add: GetIP_def sim_eval)

text \<open>
  C4 as written fails: on the simulated provider with nothing provisioned,
  \<^verbatim>\<open>Create\<close> generates the SSH key and reconciles both firewall rules before it
  creates the instance, while \<^verbatim>\<open>Start\<close> creates the instance without either:
  the external rule exists after \<^verbatim>\<open>Create\<close> and not after \<^verbatim>\<open>Start\<close>.
\<close>

theorem Start_absent_is_not_full_Create:
  "issued blank (snd (Create sim web blank))
     = [(CallGenerateSSHKey, None), (CallNewComputeUtil, None),
        (CallOpenPublicFirewallPorts, None), (CallOpenInternalFirewallPorts, None),
        (CallCreateInstance, None)]
   \<and> issued blank (snd (snd (Start sim web blank)))
     = [(CallNewComputeUtil, None), (CallInstance, Some gone), (CallCreateInstance, None),
        (CallNewComputeUtil, None), (CallIP, None)]
   \<and> externalRule (world (snd (Create sim web blank)))
   \<and> \<not> externalRule (world (snd (snd (Start sim web blank))))"
  by (simp add: Create_def Start_def GetIP_def sim_eval)

subsection \<open>PreCreateCheck\<close>

text \<open>No run of \<^verbatim>\<open>PreCreateCheck\<close> issues a mutating call.\<close>

lemma PreCreateCheck_probes_only:
  "\<forall>ev \<in> set (issued s (snd (snd (PreCreateCheck P d s)))). \<not> isMutation (fst ev)"
  by (simp add: PreCreateCheck_def invoke_eq errOf_def issued_def case_prod_beta
      split: option.splits sum.splits)

text \<open>
  C5. When the client is built and the project is found, \<^verbatim>\<open>PreCreateCheck\<close> with
  use-existing set and no instance fails with the unable-to-find-instance error, and with
  use-existing unset and an instance present fails with the already-exists error. In both
  cases the driver is unchanged, the calls issued are the client constructor and the two
  probes, and none of them is a mutating call.
\<close>

theorem PreCreateCheck_mode:
  assumes "newComputeUtil P d (world s) = (Inr c, w1)"
      and "projectsGet P c (Project d) w1 = (None, w2)"
      and "c_instance P c w2 = ((inst, err), w3)"
  shows "(UseExisting d \<and> inst = None \<longrightarrow>
            fst (PreCreateCheck P d s)
              = Some (UnableToFindInstance (MachineName (BaseDriver d)) (Zone d)))
       \<and> (\<not> UseExisting d \<and> inst \<noteq> None \<longrightarrow>
            fst (PreCreateCheck P d s)
              = Some (InstanceAlreadyExists (MachineName (BaseDriver d)) (Zone d)))
       \<and> ((UseExisting d \<and> inst = None) \<or> (\<not> UseExisting d \<and> inst \<noteq> None) \<longrightarrow>
            fst (snd (PreCreateCheck P d s)) = d
          \<and> issued s (snd (snd (PreCreateCheck P d s)))
              = [(CallNewComputeUtil, None), (CallProjectsGet, None), (CallInstance, err)])
       \<and> (\<forall>ev \<in> set (issued s (snd (snd (PreCreateCheck P d s)))). \<not> isMutation (fst ev))"
  using assms
  by (auto simp add: PreCreateCheck_def invoke_def errOf_def issued_def
      split: prod.splits option.splits sum.splits)

theorem PreCreateCheck_mode_witness:
  "newComputeUtil sim (web\<lparr>UseExisting := True\<rparr>) (world blank)
     = (Inr (web\<lparr>UseExisting := True\<rparr>), world blank)
   \<and> projectsGet sim (web\<lparr>UseExisting := True\<rparr>) ''proj'' (world blank) = (None, world blank)
   \<and> c_instance sim (web\<lparr>UseExisting := True\<rparr>) (world blank)
       = ((None, Some gone), world blank)
   \<and> fst (PreCreateCheck sim (web\<lparr>UseExisting := True\<rparr>) blank)
       = Some (UnableToFindInstance ''web'' ''us-central1-a'')
   \<and> c_instance sim web (world up) = ((Some \<lparr>Status = ''RUNNING''\<rparr>, None), world up)
   \<and> fst (PreCreateCheck sim web up) = Some (InstanceAlreadyExists ''web'' ''us-central1-a'')
   \<and> issued up (snd (snd (PreCreateCheck sim web up)))
       = [(CallNewComputeUtil, None), (CallProjectsGet, None), (CallInstance, None)]"
  using PreCreateCheck_mode
    [where P = sim and d = "web\<lparr>UseExisting := True\<rparr>" and s = blank
       and c = "web\<lparr>UseExisting := True\<rparr>" and ?w1.0 = "world blank"
       and ?w2.0 = "world blank" and inst = None and err = "Some gone"
       and ?w3.0 = "world blank"]
    PreCreateCheck_mode
    [where P = sim and d = web and s = up and c = web and ?w1.0 = "world up"
       and ?w2.0 = "world up" and inst = "Some \<lparr>Status = ''RUNNING''\<rparr>" and err = None
       and ?w3.0 = "world up"]
  by (simp add: sim_eval)

subsection \<open>Restart\<close>

text \<open>
  C7. When \<^verbatim>\<open>Stop\<close> returns an error, \<^verbatim>\<open>Restart\<close> is that run of
  \<^verbatim>\<open>Stop\<close> and nothing more: it returns the same error, and its calls are the client
  constructor, failed, or the constructor and the failed stop action. When
  \<^verbatim>\<open>Stop\<close> succeeds, \<^verbatim>\<open>Restart\<close> is \<^verbatim>\<open>Start\<close> run on the driver and
  the world that \<^verbatim>\<open>Stop\<close> left, so every call of \<^verbatim>\<open>Stop\<close> precedes every call
  of \<^verbatim>\<open>Start\<close>.
\<close>

theorem Restart_stop_then_start:
  "(\<forall>e. fst (Stop P d s) = Some e \<longrightarrow>
        Restart P d s = Stop P d s
      \<and> (\<exists>x. e = External x
            \<and> (issued s (snd (snd (Restart P d s))) = [(CallNewComputeUtil, Some x)]
               \<or> issued s (snd (snd (Restart P d s)))
                   = [(CallNewComputeUtil, None), (CallStopInstance, Some x)])))
   \<and> (fst (Stop P d s) = None \<longrightarrow>
        Restart P d s = Start P (fst (snd (Stop P d s))) (snd (snd (Stop P d s)))
      \<and> issued s (snd (snd (Restart P d s)))
          = [(CallNewComputeUtil, None), (CallStopInstance, None)]
            @ issued (snd (snd (Stop P d s))) (snd (snd (Restart P d s))))"
proof -
  have seq: "issued s (snd (snd (Start P d' \<lparr>world = w, history = history s @ pre\<rparr>)))
           = pre @ issued \<lparr>world = w, history = history s @ pre\<rparr>
                     (snd (snd (Start P d' \<lparr>world = w, history = history s @ pre\<rparr>)))"
    for d' w pre
    using Start_history [of P d' "\<lparr>world = w, history = history s @ pre\<rparr>"]
    by (auto simp add: issued_def)
  show ?thesis
    by (simp add: Restart_def Stop_def invoke_eq errOf_def seq issued_append case_prod_beta
        split: option.splits sum.splits)
qed

theorem Restart_stop_then_start_witness:
  "fst (Stop sim web blank) = Some (External gone)
   \<and> Restart sim web blank = Stop sim web blank
   \<and> issued blank (snd (snd (Restart sim web blank)))
       = [(CallNewComputeUtil, None), (CallStopInstance, Some gone)]
   \<and> fst (Stop sim web up) = None
   \<and> issued up (snd (snd (Restart sim web up)))
       = [(CallNewComputeUtil, None), (CallStopInstance, None),
          (CallNewComputeUtil, None), (CallInstance, None), (CallStartInstance, None),
          (CallNewComputeUtil, None), (CallIP, None)]"
  using Restart_stop_then_start [where P = sim and d = web and s = blank]
    Restart_stop_then_start [where P = sim and d = web and s = up]
  by (simp add: Stop_def Start_def GetIP_def sim_eval)

subsection \<open>Stop and GetIP\<close>

text \<open>
  C8. A successful \<^verbatim>\<open>Stop\<close> leaves the driver's IP-address field empty.
  \<^verbatim>\<open>GetIP\<close>, when the client is built and the address it resolves is empty, fails
  with the host-is-not-running error. Hence \<^verbatim>\<open>GetIP\<close> run on what a successful
  \<^verbatim>\<open>Stop\<close> left, with an empty resolved address, gives that error and no address.
  An address that \<^verbatim>\<open>GetIP\<close> does return is never empty and is the one the client
  resolved in that call.
\<close>

theorem Stop_then_GetIP:
  "(fst (Stop P d s) = None \<longrightarrow> IPAddress (BaseDriver (fst (snd (Stop P d s)))) = '''')
   \<and> (\<forall>d2 s2 c w1 w2.
         newComputeUtil P d2 (world s2) = (Inr c, w1) \<and> c_ip P c w1 = (('''', None), w2)
         \<longrightarrow> fst (GetIP P d2 s2) = ('''', Some ErrHostIsNotRunning))
   \<and> (\<forall>d' s' c w1 w2.
         Stop P d s = (None, d', s')
         \<and> newComputeUtil P d' (world s') = (Inr c, w1) \<and> c_ip P c w1 = (('''', None), w2)
         \<longrightarrow> IPAddress (BaseDriver d') = ''''
           \<and> fst (GetIP P d' s') = ('''', Some ErrHostIsNotRunning))
   \<and> (\<forall>d2 s2 a.
         fst (GetIP P d2 s2) = (a, None)
         \<longrightarrow> a \<noteq> ''''
           \<and> (\<exists>c. fst (newComputeUtil P d2 (world s2)) = Inr c
                  \<and> fst (c_ip P c (snd (newComputeUtil P d2 (world s2)))) = (a, None)))"
proof -
  have a: "fst (Stop P d s) = None \<longrightarrow> IPAddress (BaseDriver (fst (snd (Stop P d s)))) = ''''"
    by (simp add: Stop_def invoke_eq split: option.splits sum.splits)
  have b: "fst (GetIP P d2 s2) = ('''', Some ErrHostIsNotRunning)"
    if "newComputeUtil P d2 (world s2) = (Inr c, w1)" and "c_ip P c w1 = (('''', None), w2)"
    for d2 s2 c w1 w2
    using that by (simp add: GetIP_def invoke_def)
  have c: "IPAddress (BaseDriver d') = ''''" if "Stop P d s = (None, d', s')" for d' s'
    using a that by simp
  have r: "a \<noteq> '''' \<and> (\<exists>c. fst (newComputeUtil P d2 (world s2)) = Inr c
                  \<and> fst (c_ip P c (snd (newComputeUtil P d2 (world s2)))) = (a, None))"
    if "fst (GetIP P d2 s2) = (a, None)" for d2 s2 a
    using that
    by (cases "fst (newComputeUtil P d2 (world s2))")
       (auto simp add: GetIP_def invoke_eq case_prod_beta split: option.splits if_splits
          intro: prod_eqI)
  show ?thesis
    using a b c r by blast
qed

theorem Stop_then_GetIP_witness:
  "IPAddress (BaseDriver webRunning) = ''203.0.113.7''
   \<and> fst (GetIP sim webRunning up) = (''203.0.113.7'', None)
   \<and> Stop sim webRunning up
       = (None, web,
          \<lparr> world = (world up)\<lparr>instanceStatus := Some ''TERMINATED''\<rparr>,
            history = [(CallNewComputeUtil, None), (CallStopInstance, None)] \<rparr>)
   \<and> c_ip sim web ((world up)\<lparr>instanceStatus := Some ''TERMINATED''\<rparr>)
       = (('''', None), (world up)\<lparr>instanceStatus := Some ''TERMINATED''\<rparr>)
   \<and> fst (GetIP sim web
              \<lparr> world = (world up)\<lparr>instanceStatus := Some ''TERMINATED''\<rparr>,
                history = [(CallNewComputeUtil, None), (CallStopInstance, None)] \<rparr>)
       = ('''', Some ErrHostIsNotRunning)"
  using Stop_then_GetIP [where P = sim and s = up and d = webRunning]
  by (simp add: Stop_def GetIP_def sim_eval webRunning_def)

subsection \<open>SetConfigFromFlags\<close>

text \<open>
  C9. With the use-existing flag set, \<^verbatim>\<open>SetConfigFromFlags\<close> leaves every
  creation-time field as it was. The driver it leaves is the one it was given with the
  project written, and, when the project is not empty, with auth, zone, use-existing and
  user-data written as well and the base driver given the SSH user and port 22 and then
  passed to the base driver's own swarm configuration.
\<close>

theorem SetConfigFromFlags_use_existing:
  assumes "opt_Bool flags ''google-use-existing''"
  shows "snd (SetConfigFromFlags setSwarm flags d) =
           (if opt_String flags ''google-project'' = '''' then d\<lparr>Project := ''''\<rparr>
            else d\<lparr> BaseDriver :=
                       setSwarm flags
                         ((BaseDriver d)\<lparr> SSHUser := opt_String flags ''google-username'',
                                          SSHPort := 22 \<rparr>),
                     Auth := opt_String flags ''google-auth-encoded-json'',
                     Zone := opt_String flags ''google-zone'',
                     Project := opt_String flags ''google-project'',
                     UseExisting := True,
                     Userdata := opt_String flags ''google-userdata'' \<rparr>)
       \<and> (let d' = snd (SetConfigFromFlags setSwarm flags d) in
            MachineType d' = MachineType d \<and> MachineImage d' = MachineImage d
          \<and> DiskSize d' = DiskSize d \<and> DiskType d' = DiskType d
          \<and> Address d' = Address d \<and> Network d' = Network d
          \<and> Subnetwork d' = Subnetwork d \<and> Preemptible d' = Preemptible d
          \<and> UseInternalIP d' = UseInternalIP d \<and> UseInternalIPOnly d' = UseInternalIPOnly d
          \<and> Scopes d' = Scopes d \<and> Tags d' = Tags d \<and> OpenPorts d' = OpenPorts d
          \<and> ExternalFirewallRulePrefix d' = ExternalFirewallRulePrefix d
          \<and> InternalFirewallRulePrefix d' = InternalFirewallRulePrefix d
          \<and> Labels d' = Labels d)"
  using assms by (simp add: SetConfigFromFlags_def Let_def)

theorem SetConfigFromFlags_use_existing_witness:
  "opt_Bool (flagsFor True) ''google-use-existing''
   \<and> opt_String (flagsFor True) ''google-machine-type'' = ''e2-medium''
   \<and> opt_StringSlice (flagsFor True) ''google-open-port'' = [''80/tcp'']
   \<and> fst (SetConfigFromFlags (\<lambda>flags b. b) (flagsFor True) (NewDriver ''web'' ''/store'')) = None
   \<and> snd (SetConfigFromFlags (\<lambda>flags b. b) (flagsFor True) (NewDriver ''web'' ''/store''))
       = (NewDriver ''web'' ''/store'')
           \<lparr> BaseDriver := (BaseDriver (NewDriver ''web'' ''/store''))\<lparr>SSHPort := 22\<rparr>,
             Project := ''proj'', UseExisting := True \<rparr>
   \<and> MachineType (snd (SetConfigFromFlags (\<lambda>flags b. b) (flagsFor True)
                          (NewDriver ''web'' ''/store''))) = defaultMachineType
   \<and> OpenPorts (snd (SetConfigFromFlags (\<lambda>flags b. b) (flagsFor True)
                        (NewDriver ''web'' ''/store''))) = []"
  using SetConfigFromFlags_use_existing
    [where flags = "flagsFor True" and setSwarm = "\<lambda>flags b. b"
       and d = "NewDriver ''web'' ''/store''"]
  by (simp add: SetConfigFromFlags_def flagsFor_def Let_def sim_eval)

text \<open>
  C10. With the use-existing flag unset, after \<^verbatim>\<open>SetConfigFromFlags\<close> has returned
  no error, \<open>UseInternalIP\<close> is the disjunction of the two internal-IP flags and
  \<open>UseInternalIPOnly\<close> is the second of them, so the latter implies the former.
\<close>

theorem SetConfigFromFlags_internal_ip:
  assumes "\<not> opt_Bool flags ''google-use-existing''"
      and "fst (SetConfigFromFlags setSwarm flags d) = None"
  shows "UseInternalIP (snd (SetConfigFromFlags setSwarm flags d)) =
           (opt_Bool flags ''google-use-internal-ip''
            \<or> opt_Bool flags ''google-use-internal-ip-only'')
       \<and> UseInternalIPOnly (snd (SetConfigFromFlags setSwarm flags d)) =
           opt_Bool flags ''google-use-internal-ip-only''
       \<and> (UseInternalIPOnly (snd (SetConfigFromFlags setSwarm flags d))
            \<longrightarrow> UseInternalIP (snd (SetConfigFromFlags setSwarm flags d)))"
  using assms by (simp add: SetConfigFromFlags_def Let_def split: if_splits)

theorem SetConfigFromFlags_internal_ip_witness:
  "\<not> opt_Bool (flagsFor False) ''google-use-existing''
   \<and> \<not> opt_Bool (flagsFor False) ''google-use-internal-ip''
   \<and> opt_Bool (flagsFor False) ''google-use-internal-ip-only''
   \<and> fst (SetConfigFromFlags (\<lambda>flags b. b) (flagsFor False) (NewDriver ''web'' ''/store'')) = None
   \<and> UseInternalIP (snd (SetConfigFromFlags (\<lambda>flags b. b) (flagsFor False)
                            (NewDriver ''web'' ''/store'')))
   \<and> UseInternalIPOnly (snd (SetConfigFromFlags (\<lambda>flags b. b) (flagsFor False)
                                (NewDriver ''web'' ''/store'')))
   \<and> MachineImage (snd (SetConfigFromFlags (\<lambda>flags b. b) (flagsFor False)
                           (NewDriver ''web'' ''/store'')))
       = ''debian-cloud/global/images/debian-12''"
  using SetConfigFromFlags_internal_ip
    [where flags = "flagsFor False" and setSwarm = "\<lambda>flags b. b"
       and d = "NewDriver ''web'' ''/store''"]
  by (simp add: SetConfigFromFlags_def flagsFor_def Let_def TrimPrefix_def sim_eval)

end
